theory Spec2Isabelle
  imports Complex_Main "HOL-Library.Multiset"
begin

section \<open>Schelling segregation model: the simulation core of seg\_pygame.py\<close>

text \<open>
  The module's classes \<^verbatim>\<open>DataScientist\<close>, \<^verbatim>\<open>GridWorld\<close> and the loop of
  \<^verbatim>\<open>Model.run\<close> are embedded as functions over explicit state. Python integers are
  \<^typ>\<open>int\<close>; Python floats are idealised as \<^typ>\<open>real\<close> (exact division and comparison);
  every exception the code can raise is a value of type \<open>error\<close>. The display, plotting
  and key-press code of the module is not part of the model.
\<close>

subsection \<open>Module constants\<close>

definition N_ROWS :: int where "N_ROWS = 50"
definition N_COLS :: int where "N_COLS = 50"
definition N_CELLS :: int where "N_CELLS = N_ROWS * N_COLS"

definition LANG_PYTHON :: string where "LANG_PYTHON = ''PYTHON''"
definition LANG_R :: string where "LANG_R = ''R''"

definition RATIO_R_TO_PYTHON :: real where "RATIO_R_TO_PYTHON = 5 / 10"
definition PERCENT_EMPTY :: real where "PERCENT_EMPTY = 3 / 10"
definition SIMILARITY_THRESHOLD :: real where "SIMILARITY_THRESHOLD = 3 / 10"
definition MAX_ITER :: int where "MAX_ITER = 500"

subsection \<open>Python exceptions and built-ins\<close>

text \<open>
  \<open>IndexError\<close>, \<open>ValueError\<close> and \<open>AttributeError\<close> are the exceptions the code can raise.
  \<open>GridFull\<close> and \<open>InvalidConfiguration\<close> are the error conditions named by the
  specification; no function of the module raises them, they are here so that statements
  about them can be written.
\<close>

datatype error = IndexError | ValueError | AttributeError | GridFull | InvalidConfiguration

text \<open>\<^verbatim>\<open>range(n)\<close>: empty for \<open>n \<le> 0\<close>.\<close>

definition py_range :: "int \<Rightarrow> int list" where
  "py_range n = map int [0..<nat n]"

text \<open>\<^verbatim>\<open>int(x)\<close> on a float: truncation towards zero.\<close>

definition py_int :: "real \<Rightarrow> int" where
  "py_int x = (if 0 \<le> x then \<lfloor>x\<rfloor> else \<lceil>x\<rceil>)"

text \<open>
  Index resolution of \<^verbatim>\<open>xs[i]\<close>: a negative index counts from the end, anything out of
  range is an \<open>IndexError\<close>.
\<close>

definition py_index :: "'a list \<Rightarrow> int \<Rightarrow> nat option" where
  "py_index xs i =
     (let n = int (length xs); j = (if i < 0 then n + i else i)
      in if 0 \<le> j \<and> j < n then Some (nat j) else None)"

definition py_get :: "'a list \<Rightarrow> int \<Rightarrow> error + 'a" where
  "py_get xs i = (case py_index xs i of None \<Rightarrow> Inl IndexError | Some j \<Rightarrow> Inr (xs ! j))"

text \<open>\<^verbatim>\<open>xs[k:]\<close>: a negative start counts from the end and is clipped at 0.\<close>

definition py_slice_from :: "'a list \<Rightarrow> int \<Rightarrow> 'a list" where
  "py_slice_from xs k =
     (if k < 0 then drop (nat (max (int (length xs) + k) 0)) xs else drop (nat k) xs)"

text \<open>\<^verbatim>\<open>xs.remove(x)\<close>: removes the first occurrence, \<open>ValueError\<close> when there is none.\<close>

definition py_remove :: "'a list \<Rightarrow> 'a \<Rightarrow> error + 'a list" where
  "py_remove xs x = (if x \<in> set xs then Inr (remove1 x xs) else Inl ValueError)"

text \<open>\<^verbatim>\<open>g[p[0]][p[1]]\<close> and \<^verbatim>\<open>g[p[0]][p[1]] = v\<close> on a list of lists.\<close>

definition grid_get :: "'a list list \<Rightarrow> int \<times> int \<Rightarrow> error + 'a" where
  "grid_get g p =
     (case py_index g (fst p) of
        None \<Rightarrow> Inl IndexError
      | Some i \<Rightarrow>
          (case py_index (g ! i) (snd p) of
             None \<Rightarrow> Inl IndexError
           | Some j \<Rightarrow> Inr (g ! i ! j)))"

definition grid_set :: "'a list list \<Rightarrow> int \<times> int \<Rightarrow> 'a \<Rightarrow> error + 'a list list" where
  "grid_set g p v =
     (case py_index g (fst p) of
        None \<Rightarrow> Inl IndexError
      | Some i \<Rightarrow>
          (case py_index (g ! i) (snd p) of
             None \<Rightarrow> Inl IndexError
           | Some j \<Rightarrow> Inr (g[i := (g ! i)[j := v]])))"

subsection \<open>The module \<^verbatim>\<open>random\<close>\<close>

text \<open>
  The standard library's generator is not part of the repository. Its global state is a
  stream of raw draws and a read position; each bounded draw consumes one raw draw and
  reduces it modulo the bound, so every sequence of in-range results the real generator can
  give is the behaviour of some stream. The \<open>platform\<close> holds what the interpreter
  supplies: the stream that each integer seed selects (\<open>twister\<close>) and the stream taken
  from the operating system when the seed is \<^verbatim>\<open>None\<close> (\<open>entropy\<close>).
\<close>

record rng =
  draws :: "nat \<Rightarrow> nat"
  pos :: nat

record platform =
  twister :: "int \<Rightarrow> nat \<Rightarrow> nat"
  entropy :: "nat \<Rightarrow> nat"

text \<open>\<^verbatim>\<open>random.seed(a)\<close> overwrites the whole global state.\<close>

definition seed :: "platform \<Rightarrow> rng \<Rightarrow> int option \<Rightarrow> rng" where
  "seed P g a =
     g\<lparr>draws := (case a of None \<Rightarrow> entropy P | Some s \<Rightarrow> twister P s), pos := 0\<rparr>"

definition randbelow :: "rng \<Rightarrow> nat \<Rightarrow> nat \<times> rng" where
  "randbelow g n = (draws g (pos g) mod n, g\<lparr>pos := Suc (pos g)\<rparr>)"

text \<open>
  \<^verbatim>\<open>random.shuffle(x)\<close>: for \<open>i\<close> from \<open>len(x) - 1\<close> down to 1, draw \<open>j\<close> below \<open>i + 1\<close>
  and swap \<open>x[i]\<close> with \<open>x[j]\<close>.
\<close>

fun shuffle_from :: "nat \<Rightarrow> 'a list \<Rightarrow> rng \<Rightarrow> 'a list \<times> rng" where
  "shuffle_from 0 xs g = (xs, g)"
| "shuffle_from (Suc i) xs g =
     (let (j, g') = randbelow g (Suc (Suc i))
      in shuffle_from i (xs[Suc i := xs ! j, j := xs ! Suc i]) g')"

definition shuffle :: "'a list \<Rightarrow> rng \<Rightarrow> 'a list \<times> rng" where
  "shuffle xs g = shuffle_from (length xs - 1) xs g"

text \<open>
  \<^verbatim>\<open>random.choice(seq)\<close>: \<open>IndexError\<close> on an empty sequence, with the generator
  untouched.
\<close>

definition choice :: "rng \<Rightarrow> 'a list \<Rightarrow> error + ('a \<times> rng)" where
  "choice g xs =
     (if xs = [] then Inl IndexError
      else (let (j, g') = randbelow g (length xs) in Inr (xs ! j, g')))"

subsection \<open>DataScientist and GridWorld\<close>

text \<open>
  An agent object. The back reference \<^verbatim>\<open>env\<close> is left out: the world is passed to
  every function that follows it.
\<close>

record DataScientist =
  agent_id :: int
  row :: int
  col :: int
  language :: string
  threshold :: real

definition coordinates :: "DataScientist \<Rightarrow> int \<times> int" where
  "coordinates a = (row a, col a)"

text \<open>
  The setter of \<^verbatim>\<open>coordinates\<close>. Its \<open>ValueError\<close> branch is for an argument that is
  not a 2-tuple, which the argument's type rules out here.
\<close>

definition set_coordinates :: "DataScientist \<Rightarrow> int \<times> int \<Rightarrow> DataScientist" where
  "set_coordinates a coords = a\<lparr>row := fst coords, col := snd coords\<rparr>"

text \<open>
  The world. Agent objects are shared between \<^verbatim>\<open>self.agents\<close> and \<^verbatim>\<open>self.grid\<close>;
  the list \<open>agents\<close> is the store of the objects, in creation order, and a reference to an
  agent is its index there. A grid cell holds \<open>None\<close> or a reference.
\<close>

record GridWorld =
  n_agents :: int
  grid :: "nat option list list"
  agents :: "DataScientist list"
  empty_cells :: "(int \<times> int) list"

type_synonym state = "GridWorld \<times> rng"

text \<open>One pass of the loop of \<^verbatim>\<open>__init__\<close> that creates agent \<open>i\<close>.\<close>

definition create_agent :: "int \<Rightarrow> (int \<times> int) list \<Rightarrow> nat \<Rightarrow> GridWorld \<Rightarrow> error + GridWorld" where
  "create_agent n coords i w =
     (let lang = (if int i < py_int (of_int n * RATIO_R_TO_PYTHON) then LANG_R else LANG_PYTHON)
      in case py_get coords (int i) of
           Inl e \<Rightarrow> Inl e
         | Inr c \<Rightarrow>
             (let agent = \<lparr>agent_id = int i, row = fst c, col = snd c, language = lang,
                           threshold = SIMILARITY_THRESHOLD\<rparr>
              in case grid_set (grid w) (row agent, col agent) (Some (length (agents w))) of
                   Inl e \<Rightarrow> Inl e
                 | Inr g \<Rightarrow> Inr (w\<lparr>grid := g, agents := agents w @ [agent]\<rparr>)))"

fun create_agents :: "int \<Rightarrow> (int \<times> int) list \<Rightarrow> nat list \<Rightarrow> GridWorld \<Rightarrow> error + GridWorld" where
  "create_agents n coords [] w = Inr w"
| "create_agents n coords (i # is) w =
     (case create_agent n coords i w of
        Inl e \<Rightarrow> Inl e
      | Inr w' \<Rightarrow> create_agents n coords is w')"

text \<open>
  \<^verbatim>\<open>GridWorld.__init__\<close>. A raise leaves no object behind, so the error case carries
  no state.
\<close>

definition GridWorld_init ::
  "platform \<Rightarrow> int \<Rightarrow> int \<Rightarrow> int \<Rightarrow> int option \<Rightarrow> rng \<Rightarrow> error + state" where
  "GridWorld_init P n_rows n_cols n_empty random_seed g =
     (let n = N_CELLS - n_empty;
          g0 = replicate (nat n_rows) (replicate (nat n_cols) None);
          coords = List.product (py_range n_rows) (py_range n_cols);
          (coords', g') = shuffle coords (seed P g random_seed)
      in case create_agents n coords' [0..<nat n]
                \<lparr>n_agents = n, grid = g0, agents = [], empty_cells = []\<rparr> of
           Inl e \<Rightarrow> Inl e
         | Inr w \<Rightarrow> Inr (w\<lparr>empty_cells := py_slice_from coords' n\<rparr>, g'))"

text \<open>\<^verbatim>\<open>GridWorld.get_neighbours\<close>: the eight candidates in scan order, then the filter.\<close>

definition neighbour_coords :: "int \<Rightarrow> int \<Rightarrow> (int \<times> int) list" where
  "neighbour_coords r c =
     [(r - 1, c - 1), (r - 1, c), (r - 1, c + 1),
      (r, c - 1), (r, c + 1),
      (r + 1, c - 1), (r + 1, c), (r + 1, c + 1)]"

definition feasible :: "GridWorld \<Rightarrow> int \<times> int \<Rightarrow> bool" where
  "feasible w c \<longleftrightarrow>
     fst c \<ge> 0 \<and> snd c \<ge> 0 \<and> fst c < N_ROWS \<and> snd c < N_COLS \<and> c \<notin> set (empty_cells w)"

fun collect :: "GridWorld \<Rightarrow> (int \<times> int) list \<Rightarrow> error + nat option list" where
  "collect w [] = Inr []"
| "collect w (c # cs) =
     (if feasible w c then
        (case grid_get (grid w) c of
           Inl e \<Rightarrow> Inl e
         | Inr v \<Rightarrow> (case collect w cs of Inl e \<Rightarrow> Inl e | Inr vs \<Rightarrow> Inr (v # vs)))
      else collect w cs)"

definition get_neighbours :: "GridWorld \<Rightarrow> int \<Rightarrow> int \<Rightarrow> error + nat option list" where
  "get_neighbours w r c = collect w (neighbour_coords r c)"

text \<open>
  \<^verbatim>\<open>DataScientist.is_unsatified_with_neighbours\<close>. Reading \<^verbatim>\<open>n.language\<close> of a
  neighbour that is \<open>None\<close> is an \<open>AttributeError\<close>.
\<close>

fun similar :: "GridWorld \<Rightarrow> string \<Rightarrow> nat option list \<Rightarrow> error + nat option list" where
  "similar w l [] = Inr []"
| "similar w l (None # ns) = Inl AttributeError"
| "similar w l (Some b # ns) =
     (case similar w l ns of
        Inl e \<Rightarrow> Inl e
      | Inr ss \<Rightarrow> Inr (if language (agents w ! b) = l then Some b # ss else ss))"

definition is_unsatified_with_neighbours :: "GridWorld \<Rightarrow> nat \<Rightarrow> error + bool" where
  "is_unsatified_with_neighbours w a =
     (let self = agents w ! a
      in case get_neighbours w (row self) (col self) of
           Inl e \<Rightarrow> Inl e
         | Inr neighbours \<Rightarrow>
             (case similar w (language self) neighbours of
                Inl e \<Rightarrow> Inl e
              | Inr sim \<Rightarrow>
                  (let n_similar = length sim
                   in if length neighbours = 0 then Inr False
                      else Inr (real n_similar / real (length neighbours) < threshold self))))"

text \<open>
  \<^verbatim>\<open>GridWorld.relocate\<close> with \<^verbatim>\<open>get_random_empty_cell\<close> inlined. A raise returns
  the state as it is at that moment.
\<close>

definition relocate :: "state \<Rightarrow> nat \<Rightarrow> (error \<times> state) + state" where
  "relocate s a =
     (let w = fst s; g = snd s
      in case choice g (empty_cells w) of
           Inl e \<Rightarrow> Inl (e, s)
         | Inr (new_loc, g') \<Rightarrow>
             (let agent = agents w ! a; old_loc = coordinates agent
              in case grid_set (grid w) new_loc (Some a) of
                   Inl e \<Rightarrow> Inl (e, (w, g'))
                 | Inr g1 \<Rightarrow>
                     (case grid_set g1 old_loc None of
                        Inl e \<Rightarrow> Inl (e, (w\<lparr>grid := g1\<rparr>, g'))
                      | Inr g2 \<Rightarrow>
                          (let w2 = w\<lparr>grid := g2,
                                      agents := (agents w)[a := set_coordinates agent new_loc]\<rparr>
                           in case py_remove (empty_cells w2) new_loc of
                                Inl e \<Rightarrow> Inl (e, (w2, g'))
                              | Inr es \<Rightarrow> Inr (w2\<lparr>empty_cells := es @ [old_loc]\<rparr>, g')))))"

subsection \<open>The loop of Model.run\<close>

fun scan :: "GridWorld \<Rightarrow> nat list \<Rightarrow> error + nat list" where
  "scan w [] = Inr []"
| "scan w (a # as) =
     (case is_unsatified_with_neighbours w a of
        Inl e \<Rightarrow> Inl e
      | Inr b \<Rightarrow>
          (case scan w as of
             Inl e \<Rightarrow> Inl e
           | Inr to_move \<Rightarrow> Inr (if b then a # to_move else to_move)))"

fun relocate_all :: "state \<Rightarrow> nat list \<Rightarrow> (error \<times> state) + state" where
  "relocate_all s [] = Inr s"
| "relocate_all s (a # as) =
     (case relocate s a of
        Inl es \<Rightarrow> Inl es
      | Inr s' \<Rightarrow> relocate_all s' as)"

text \<open>
  What the display reads after an iteration: the iteration number, the agents, and the
  number of agents moved.
\<close>

type_synonym snapshot = "int \<times> DataScientist list \<times> nat"

record outcome =
  converged :: bool
  iteration :: int
  final :: state
  snapshots :: "snapshot list"

function run_loop ::
  "int \<Rightarrow> bool \<Rightarrow> int \<Rightarrow> state \<Rightarrow> snapshot list \<Rightarrow> (error \<times> outcome) + outcome" where
  "run_loop max_iter conv it s tr =
     (if \<not> conv \<and> it < max_iter then
        (case scan (fst s) [0..<length (agents (fst s))] of
           Inl e \<Rightarrow>
             Inl (e, \<lparr>converged = True, iteration = it + 1, final = s, snapshots = tr\<rparr>)
         | Inr to_move \<Rightarrow>
             (case relocate_all s to_move of
                Inl (e, s') \<Rightarrow>
                  Inl (e, \<lparr>converged = (length to_move = 0), iteration = it + 1,
                           final = s', snapshots = tr\<rparr>)
              | Inr s' \<Rightarrow>
                  run_loop max_iter (length to_move = 0) (it + 1) s'
                    (tr @ [(it + 1, agents (fst s'), length to_move)])))
      else Inr \<lparr>converged = conv, iteration = it, final = s, snapshots = tr\<rparr>)"
  by pat_completeness auto
termination
  by (relation "measure (\<lambda>(max_iter, conv, it, s, tr). nat (max_iter - it))") auto

declare run_loop.simps [simp del]

definition Model_run :: "int \<Rightarrow> state \<Rightarrow> (error \<times> outcome) + outcome" where
  "Model_run max_iter s = run_loop max_iter False 0 s []"

text \<open>Which exception, if any, a call raised.\<close>

definition raises :: "(error \<times> 'a) + 'b \<Rightarrow> error \<Rightarrow> bool" where
  "raises r e = (case r of Inl (e', _) \<Rightarrow> e' = e | Inr _ \<Rightarrow> False)"

subsection \<open>The grid invariants\<close>

text \<open>
  A position is inside an \<open>R\<close> by \<open>C\<close> grid; a grid is rectangular; \<open>cell\<close> reads and
  \<open>upd\<close> writes a position that is inside.
\<close>

definition in_bounds :: "nat \<Rightarrow> nat \<Rightarrow> int \<times> int \<Rightarrow> bool" where
  "in_bounds R C p \<longleftrightarrow> 0 \<le> fst p \<and> fst p < int R \<and> 0 \<le> snd p \<and> snd p < int C"

definition rect :: "nat \<Rightarrow> nat \<Rightarrow> 'a list list \<Rightarrow> bool" where
  "rect R C g \<longleftrightarrow> length g = R \<and> (\<forall>r \<in> set g. length r = C)"

definition cell :: "'a list list \<Rightarrow> int \<times> int \<Rightarrow> 'a" where
  "cell g p = g ! nat (fst p) ! nat (snd p)"

definition upd :: "'a list list \<Rightarrow> int \<times> int \<Rightarrow> 'a \<Rightarrow> 'a list list" where
  "upd g p v = g[nat (fst p) := (g ! nat (fst p))[nat (snd p) := v]]"

text \<open>
  The invariants of the world: the grid is \<open>R\<close> by \<open>C\<close>; the free list has no duplicates;
  a free position is inside and its cell is \<open>None\<close>; every agent's stored position is inside
  and its cell refers to that agent; a position inside that is not free holds a reference to
  an agent stored at that position; free positions and agents together count \<open>R * C\<close>.
\<close>

definition grid_inv :: "nat \<Rightarrow> nat \<Rightarrow> GridWorld \<Rightarrow> bool" where
  "grid_inv R C w \<longleftrightarrow>
     rect R C (grid w) \<and>
     distinct (empty_cells w) \<and>
     (\<forall>p \<in> set (empty_cells w). in_bounds R C p \<and> cell (grid w) p = None) \<and>
     (\<forall>a < length (agents w). in_bounds R C (coordinates (agents w ! a)) \<and>
        cell (grid w) (coordinates (agents w ! a)) = Some a) \<and>
     (\<forall>p. in_bounds R C p \<longrightarrow> p \<notin> set (empty_cells w) \<longrightarrow>
        (\<exists>a < length (agents w). cell (grid w) p = Some a \<and> coordinates (agents w ! a) = p)) \<and>
     length (empty_cells w) + length (agents w) = R * C"

text \<open>The position \<open>relocate\<close> draws, and the state a successful \<open>relocate\<close> leaves.\<close>

definition picked :: "state \<Rightarrow> int \<times> int" where
  "picked s = empty_cells (fst s) ! (draws (snd s) (pos (snd s)) mod length (empty_cells (fst s)))"

definition moved :: "state \<Rightarrow> nat \<Rightarrow> state" where
  "moved s a =
     (let w = fst s; new_loc = picked s; old_loc = coordinates (agents w ! a)
      in (w\<lparr>grid := upd (upd (grid w) new_loc (Some a)) old_loc None,
            agents := (agents w)[a := set_coordinates (agents w ! a) new_loc],
            empty_cells := remove1 new_loc (empty_cells w) @ [old_loc]\<rparr>,
          (snd s)\<lparr>pos := Suc (pos (snd s))\<rparr>))"

subsection \<open>Example inputs\<close>

definition example_platform :: platform where
  "example_platform = \<lparr>twister = (\<lambda>s i. nat s + i), entropy = (\<lambda>i. 0)\<rparr>"

definition example_rng :: rng where
  "example_rng = \<lparr>draws = (\<lambda>i. 0), pos = 0\<rparr>"

text \<open>The world of \<^verbatim>\<open>GridWorld(1, 1, 2499)\<close>: one cell, one agent, nothing free.\<close>

definition full_world :: GridWorld where
  "full_world =
     \<lparr>n_agents = 1, grid = [[Some 0]],
      agents = [\<lparr>agent_id = 0, row = 0, col = 0, language = LANG_PYTHON,
                 threshold = SIMILARITY_THRESHOLD\<rparr>],
      empty_cells = []\<rparr>"

section \<open>Properties\<close>

subsection \<open>Reading and writing the grid\<close>

lemma py_index_in: "0 \<le> i \<Longrightarrow> i < int (length xs) \<Longrightarrow> py_index xs i = Some (nat i)"
  by (simp add: py_index_def)

lemma rect_row: "rect R C g \<Longrightarrow> i < R \<Longrightarrow> length (g ! i) = C"
  by (simp add: rect_def)

lemma grid_get_in:
  assumes "rect R C g" "in_bounds R C p"
  shows "grid_get g p = Inr (cell g p)"
proof -
  from assms have 1: "py_index g (fst p) = Some (nat (fst p))"
    by (simp add: py_index_in rect_def in_bounds_def)
  from assms have "nat (fst p) < R" by (auto simp: in_bounds_def)
  with assms have "length (g ! nat (fst p)) = C"
    by (simp add: rect_row)
  with assms have 2: "py_index (g ! nat (fst p)) (snd p) = Some (nat (snd p))"
    by (simp add: py_index_in in_bounds_def)
  from 1 2 show ?thesis by (simp add: grid_get_def cell_def)
qed

lemma grid_set_in:
  assumes "rect R C g" "in_bounds R C p"
  shows "grid_set g p v = Inr (upd g p v)"
proof -
  from assms have 1: "py_index g (fst p) = Some (nat (fst p))"
    by (simp add: py_index_in rect_def in_bounds_def)
  from assms have "nat (fst p) < R" by (auto simp: in_bounds_def)
  with assms have "length (g ! nat (fst p)) = C"
    by (simp add: rect_row)
  with assms have 2: "py_index (g ! nat (fst p)) (snd p) = Some (nat (snd p))"
    by (simp add: py_index_in in_bounds_def)
  from 1 2 show ?thesis by (simp add: grid_set_def upd_def)
qed

lemma rect_upd: "rect R C g \<Longrightarrow> rect R C (upd g p v)"
proof -
  assume r: "rect R C g"
  show ?thesis
  proof (cases "nat (fst p) < length g")
    case True
    with r have "length ((g ! nat (fst p))[nat (snd p) := v]) = C" by (simp add: rect_def)
    with r show ?thesis
      unfolding rect_def upd_def by (auto dest!: set_update_subset_insert [THEN subsetD])
  next
    case False
    then have "upd g p v = g" by (simp add: upd_def list_update_beyond not_less)
    with r show ?thesis by simp
  qed
qed

lemma cell_upd:
  assumes "rect R C g" "in_bounds R C p" "in_bounds R C q"
  shows "cell (upd g p v) q = (if p = q then v else cell g q)"
proof -
  from assms have lp: "nat (fst p) < length g" and lq: "nat (fst q) < length g"
    by (auto simp: rect_def in_bounds_def)
  from assms lp have cp: "nat (snd p) < length (g ! nat (fst p))"
    by (auto simp: rect_def in_bounds_def)
  show ?thesis
  proof (cases "fst p = fst q")
    case True
    note f = this
    show ?thesis
    proof (cases "snd p = snd q")
      case True
      with f have "p = q" by (simp add: prod_eq_iff)
      with lp cp show ?thesis by (simp add: cell_def upd_def)
    next
      case False
      with assms have "nat (snd p) \<noteq> nat (snd q)" by (auto simp: in_bounds_def)
      moreover from False have "p \<noteq> q" by auto
      ultimately show ?thesis using f lp by (simp add: cell_def upd_def)
    qed
  next
    case False
    with assms have "nat (fst p) \<noteq> nat (fst q)" by (auto simp: in_bounds_def)
    moreover from False have "p \<noteq> q" by auto
    ultimately show ?thesis by (simp add: cell_def upd_def)
  qed
qed

subsection \<open>relocate\<close>

lemma choice_nonempty:
  "xs \<noteq> [] \<Longrightarrow>
   choice g xs = Inr (xs ! (draws g (pos g) mod length xs), g\<lparr>pos := Suc (pos g)\<rparr>)"
  by (simp add: choice_def randbelow_def)

lemma choice_empty: "choice g [] = Inl IndexError"
  by (simp add: choice_def)

lemma picked_in: "empty_cells (fst s) \<noteq> [] \<Longrightarrow> picked s \<in> set (empty_cells (fst s))"
  by (simp add: picked_def)

lemma relocate_empty: "empty_cells (fst s) = [] \<Longrightarrow> relocate s a = Inl (IndexError, s)"
  by (simp add: relocate_def choice_empty)

lemma relocate_moved:
  assumes inv: "grid_inv R C (fst s)" and a: "a < length (agents (fst s))"
    and ne: "empty_cells (fst s) \<noteq> []"
  shows "relocate s a = Inr (moved s a)"
proof -
  let ?w = "fst s"
  let ?new = "picked s"
  let ?old = "coordinates (agents ?w ! a)"
  from inv have r: "rect R C (grid ?w)" by (simp add: grid_inv_def)
  from ne have mem: "?new \<in> set (empty_cells ?w)" by (rule picked_in)
  with inv have bn: "in_bounds R C ?new" by (simp add: grid_inv_def)
  from inv a have bo: "in_bounds R C ?old" by (simp add: grid_inv_def)
  have c: "choice (snd s) (empty_cells ?w) = Inr (?new, (snd s)\<lparr>pos := Suc (pos (snd s))\<rparr>)"
    using ne by (simp add: choice_nonempty picked_def)
  have s1: "grid_set (grid ?w) ?new (Some a) = Inr (upd (grid ?w) ?new (Some a))"
    using r bn by (rule grid_set_in)
  have s2: "grid_set (upd (grid ?w) ?new (Some a)) ?old None
              = Inr (upd (upd (grid ?w) ?new (Some a)) ?old None)"
    using rect_upd [OF r] bo by (rule grid_set_in)
  have rm: "py_remove (empty_cells ?w) ?new = Inr (remove1 ?new (empty_cells ?w))"
    using mem by (simp add: py_remove_def)
  show ?thesis
    unfolding relocate_def moved_def Let_def c
    by (simp only: sum.case prod.case s1 s2 GridWorld.simps) (simp add: rm)
qed

text \<open>
  C4 (as the code has it). When the free list is empty, \<open>relocate\<close> fails with the
  \<open>IndexError\<close> that \<^verbatim>\<open>random.choice\<close> raises on an empty sequence; there is no guard
  of its own. The failed call leaves the world, its agents and the generator as they were.
\<close>

theorem relocate_full_grid_IndexError:
  "empty_cells (fst s) = [] \<Longrightarrow> relocate s a = Inl (IndexError, s)"
  by (rule relocate_empty)

theorem relocate_full_grid_IndexError_witness:
  "empty_cells (fst (full_world, example_rng)) = [] \<and>
   relocate (full_world, example_rng) 0 = Inl (IndexError, (full_world, example_rng))"
proof -
  have h: "empty_cells (fst (full_world, example_rng)) = []"
    by (simp add: full_world_def)
  from h relocate_full_grid_IndexError [OF h, of 0] show ?thesis by blast
qed

text \<open>
  C4 as stated fails: on the full one-cell world the exception raised is not \<open>GridFull\<close>.
\<close>

theorem relocate_full_grid_not_GridFull:
  "\<not> raises (relocate (full_world, example_rng) 0) GridFull"
  by (simp add: raises_def relocate_def choice_def full_world_def)

end
